theory Spec2Isabelle
  imports Main
begin

section \<open>The autoComplete directive of ngTagsInput: SuggestionList and its event wiring\<close>

text \<open>
  The development embeds \<^verbatim>\<open>src/auto-complete.js\<close>: the closure \<^verbatim>\<open>SuggestionList\<close>
  (lines 35-158) and the handlers registered by the directive's \<^verbatim>\<open>link\<close> function
  (lines 165-295). The closure variables and the fields of \<^verbatim>\<open>self\<close> become one record,
  every function of the source becomes a function from state to state, and the two
  asynchronous services (\<^verbatim>\<open>$timeout\<close>, \<^verbatim>\<open>$q\<close>) become sets of pending timers and
  pending promises that the environment fires, resolves or rejects in any order.

  The DOM writes of the source (the \<^verbatim>\<open>autoResize\<close> styling, \<^verbatim>\<open>scroll\<close>, and the body of
  the zero-delay timer of \<^verbatim>\<open>show\<close>) touch no field of the SuggestionList and are left
  out; the zero-delay timer itself is kept as a pending timer. Time is abstracted: a
  pending timer may fire at any later moment.
\<close>

subsection \<open>JavaScript values\<close>

text \<open>An object is a list of (property, value) pairs; reading a missing property
  gives \<^verbatim>\<open>undefined\<close>, which is \<open>None\<close>.\<close>

type_synonym candidate = "(string \<times> string) list"

definition getProp :: "candidate \<Rightarrow> string \<Rightarrow> string option" where
  "getProp obj key = map_of obj key"

text \<open>A variable that holds \<^verbatim>\<open>null\<close>, \<^verbatim>\<open>undefined\<close> or a value.\<close>

datatype 'a js = JSNull | JSUndefined | JSVal 'a

text \<open>Truthiness of a variable that holds an object or nothing: every object is truthy.\<close>

fun truthy :: "candidate js \<Rightarrow> bool" where
  "truthy JSNull = False"
| "truthy JSUndefined = False"
| "truthy (JSVal obj) = True"

text \<open>\<^verbatim>\<open>xs[i]\<close>: a read out of range gives \<^verbatim>\<open>undefined\<close> and does not throw.\<close>

definition array_get :: "'a list \<Rightarrow> int \<Rightarrow> 'a js" where
  "array_get xs i = (if 0 \<le> i \<and> i < int (length xs) then JSVal (xs ! nat i) else JSUndefined)"

text \<open>\<^verbatim>\<open>Array.prototype.slice(start, end)\<close> on integer arguments: a negative argument
  counts from the end, and both are clamped to the array.\<close>

definition slice :: "'a list \<Rightarrow> int \<Rightarrow> int \<Rightarrow> 'a list" where
  "slice xs start fin =
     (let len = int (length xs);
          k = (if start < 0 then max (len + start) 0 else min start len);
          final = (if fin < 0 then max (len + fin) 0 else min fin len)
      in take (nat (final - k)) (drop (nat k) xs))"

subsection \<open>Configuration\<close>

text \<open>The options bound at lines 173-188, with \<^verbatim>\<open>options.tagsInput.displayProperty\<close>
  flattened into the same record.\<close>

record options =
  debounceDelay :: nat
  minLength :: int
  highlightMatchedText :: bool
  maxResultsToShow :: int
  loadOnDownArrow :: bool
  loadOnEmpty :: bool
  loadOnFocus :: bool
  selectFirstMatch :: bool
  autoResize :: int
  displayProperty :: string

definition default_options :: options where
  "default_options =
     \<lparr> debounceDelay = 100, minLength = 3, highlightMatchedText = True,
       maxResultsToShow = 10, loadOnDownArrow = False, loadOnEmpty = False,
       loadOnFocus = False, selectFirstMatch = True, autoResize = - 1,
       displayProperty = ''text'' \<rparr>"

subsection \<open>Helpers of the repository that are not in auto-complete.js\<close>

text \<open>What the data source resolves to: an array, or an envelope \<^verbatim>\<open>{data: [...]}\<close>; an
  element is a string or an object.\<close>

datatype raw = Str string | Obj candidate

datatype response = ArrayResult "raw list" | DataEnvelope "raw list"

text \<open>\<^verbatim>\<open>items.data || items\<close> (line 115): an array has no \<^verbatim>\<open>data\<close> property, and an array
  in \<^verbatim>\<open>data\<close> is truthy even when empty.\<close>

fun data_or_items :: "response \<Rightarrow> raw list" where
  "data_or_items (ArrayResult xs) = xs"
| "data_or_items (DataEnvelope xs) = xs"

text \<open>Modelled from the spec: \<^verbatim>\<open>makeObjectArray\<close> is defined outside auto-complete.js.
  The spec (4.1, step 4) says the result is normalized into a sequence of Candidate:
  a string becomes an object holding it in the display field, an object stays.\<close>

fun makeObject :: "string \<Rightarrow> raw \<Rightarrow> candidate" where
  "makeObject key (Str v) = [(key, v)]"
| "makeObject key (Obj obj) = obj"

definition makeObjectArray :: "raw list \<Rightarrow> string \<Rightarrow> candidate list" where
  "makeObjectArray array key = map (makeObject key) array"

text \<open>Modelled from the spec: \<^verbatim>\<open>findInObjectArray\<close> is defined outside auto-complete.js.
  The spec (3, 4.1 step 4) compares candidates by equality of their display-field
  values; the helper returns the first element of the array whose value under \<open>key\<close>
  equals that of \<open>obj\<close>, and \<^verbatim>\<open>null\<close> when there is none. A missing display field
  reads as \<^verbatim>\<open>undefined\<close>, which equals only \<^verbatim>\<open>undefined\<close>.\<close>

fun findInObjectArray :: "candidate list \<Rightarrow> candidate \<Rightarrow> string \<Rightarrow> candidate js" where
  "findInObjectArray [] obj key = JSNull"
| "findInObjectArray (x # xs) obj key =
     (if getProp x key = getProp obj key then JSVal x else findInObjectArray xs obj key)"

text \<open>Modelled from the spec: the table \<^verbatim>\<open>KEYS\<close> is defined outside auto-complete.js.
  The spec (4.3) names five distinct hotkeys; every other key code is \<open>KOther\<close>.\<close>

datatype key = KEnter | KTab | KEscape | KUp | KDown | KOther nat

definition hotkeys :: "key list" where
  "hotkeys = [KEnter, KTab, KEscape, KUp, KDown]"

subsection \<open>State\<close>

text \<open>A pending \<^verbatim>\<open>$timeout\<close>: the debounced fetch of \<^verbatim>\<open>load\<close> with the query and tags
  its closure captured, or the zero-delay scroll reset of \<^verbatim>\<open>show\<close>.\<close>

datatype timer_job = DebouncedLoad string "candidate list" | ScrollReset

text \<open>Calls made on the host tagsInput.\<close>

datatype host_call = AddTag candidate | FocusInput

text \<open>The fields of \<^verbatim>\<open>self\<close> (items, visible, index, selected, query), the closure
  variables \<^verbatim>\<open>lastPromise\<close> (\<open>None\<close> is \<^verbatim>\<open>null\<close>) and \<^verbatim>\<open>debouncedLoadId\<close> (\<open>None\<close>
  is \<^verbatim>\<open>undefined\<close>), and the environment: pending timers, pending promises (each with
  the \<open>tags\<close> its \<^verbatim>\<open>then\<close> callback captured), the next fresh handles, and the calls
  received by the host.\<close>

record state =
  items :: "candidate list"
  visible :: bool
  index :: int
  selected :: "candidate js"
  query :: "string js"
  lastPromise :: "nat option"
  debouncedLoadId :: "nat option"
  timers :: "(nat \<times> timer_job) list"
  promises :: "(nat \<times> candidate list) list"
  next_timer :: nat
  next_promise :: nat
  host_log :: "host_call list"

subsection \<open>The timer service\<close>

definition timeout_cancel :: "nat option \<Rightarrow> state \<Rightarrow> state" where
  "timeout_cancel h s =
     (case h of
        None \<Rightarrow> s
      | Some t \<Rightarrow> s\<lparr>timers := filter (\<lambda>e. fst e \<noteq> t) (timers s)\<rparr>)"

definition timeout_start :: "timer_job \<Rightarrow> state \<Rightarrow> nat \<times> state" where
  "timeout_start job s =
     (next_timer s,
      s\<lparr>timers := timers s @ [(next_timer s, job)], next_timer := Suc (next_timer s)\<rparr>)"

subsection \<open>SuggestionList (lines 64-153)\<close>

definition getDifference :: "options \<Rightarrow> candidate list \<Rightarrow> candidate list \<Rightarrow> candidate list" where
  "getDifference opts array1 array2 =
     filter (\<lambda>item. \<not> truthy (findInObjectArray array2 item (displayProperty opts))) array1"

definition reset :: "state \<Rightarrow> state" where
  "reset s =
     (let s1 = s\<lparr>lastPromise := None\<rparr>;
          s2 = s1\<lparr>items := [], visible := False, index := - 1,
                  selected := JSNull, query := JSNull\<rparr>
      in timeout_cancel (debouncedLoadId s2) s2)"

definition select :: "int \<Rightarrow> state \<Rightarrow> state" where
  "select i s =
     (let len = int (length (items s));
          i' = (if i < 0 then len - 1 else if i \<ge> len then 0 else i)
      in s\<lparr>index := i', selected := array_get (items s) i'\<rparr>)"

definition show_list :: "options \<Rightarrow> state \<Rightarrow> state" where
  "show_list opts s =
     (let s1 = (if selectFirstMatch opts then select 0 s else s\<lparr>selected := JSNull\<rparr>);
          s2 = s1\<lparr>visible := True\<rparr>
      in snd (timeout_start ScrollReset s2))"

definition load :: "string \<Rightarrow> candidate list \<Rightarrow> state \<Rightarrow> state" where
  "load q tags s =
     (let s1 = timeout_cancel (debouncedLoadId s) s;
          (h, s2) = timeout_start (DebouncedLoad q tags) s1
      in s2\<lparr>debouncedLoadId := Some h\<rparr>)"

text \<open>The body of the debounce timer (lines 105-110): the query is stored, the fetch is
  issued, and its promise becomes the load token.\<close>

definition load_fired :: "string \<Rightarrow> candidate list \<Rightarrow> state \<Rightarrow> state" where
  "load_fired q tags s =
     (let s1 = s\<lparr>query := JSVal q\<rparr>;
          promise = next_promise s1;
          s2 = s1\<lparr>promises := promises s1 @ [(promise, tags)], next_promise := Suc promise\<rparr>
      in s2\<lparr>lastPromise := Some promise\<rparr>)"

text \<open>The \<^verbatim>\<open>then\<close> callback (lines 110-130) of the promise \<open>promise\<close>.\<close>

definition load_resolved :: "options \<Rightarrow> nat \<Rightarrow> candidate list \<Rightarrow> response \<Rightarrow> state \<Rightarrow> state" where
  "load_resolved opts promise tags resp s =
     (if Some promise \<noteq> lastPromise s then s
      else
        let items1 = makeObjectArray (data_or_items resp) (displayProperty opts);
            items2 = getDifference opts items1 tags;
            s1 = (if maxResultsToShow opts = - 1 then s\<lparr>items := items2\<rparr>
                  else s\<lparr>items := slice items2 0 (maxResultsToShow opts)\<rparr>)
        in if length (items s1) > 0 then show_list opts s1 else reset s1)"

definition selectNext :: "state \<Rightarrow> state" where
  "selectNext s = (let s1 = s\<lparr>index := index s + 1\<rparr> in select (index s1) s1)"

definition selectPrior :: "state \<Rightarrow> state" where
  "selectPrior s = (let s1 = s\<lparr>index := index s - 1\<rparr> in select (index s1) s1)"

text \<open>The constructor runs \<^verbatim>\<open>self.reset()\<close> (line 155) on the fresh closure, where no
  field is set yet and nothing is pending; \<open>reset\<close> overwrites every placeholder below.\<close>

definition blank :: state where
  "blank = \<lparr> items = [], visible = False, index = 0, selected = JSUndefined,
             query = JSUndefined, lastPromise = None, debouncedLoadId = None,
             timers = [], promises = [], next_timer = 0, next_promise = 0,
             host_log = [] \<rparr>"

definition SuggestionList :: state where
  "SuggestionList = reset blank"

subsection \<open>The handlers of the directive (lines 200-294)\<close>

definition shouldLoadSuggestions :: "options \<Rightarrow> string \<Rightarrow> bool" where
  "shouldLoadSuggestions opts v =
     (v \<noteq> [] \<and> int (length v) \<ge> minLength opts \<or> v = [] \<and> loadOnEmpty opts)"

text \<open>\<^verbatim>\<open>tagsInput.addTag\<close> and \<^verbatim>\<open>tagsInput.focusInput\<close> belong to the host and are
  recorded as calls. A lifecycle event that the host fires from within \<^verbatim>\<open>addTag\<close> runs
  \<open>reset\<close> (lines 238-240), which line 216 runs again to the same effect.\<close>

definition addSuggestion :: "state \<Rightarrow> state \<times> bool" where
  "addSuggestion s =
     (case selected s of
        JSVal obj \<Rightarrow>
          let s1 = s\<lparr>host_log := host_log s @ [AddTag obj]\<rparr>;
              s2 = reset s1;
              s3 = s2\<lparr>host_log := host_log s2 @ [FocusInput]\<rparr>
          in (s3, True)
      | _ \<Rightarrow> (s, False))"

definition addSuggestionByIndex :: "int \<Rightarrow> state \<Rightarrow> state" where
  "addSuggestionByIndex i s = fst (addSuggestion (select i s))"

definition input_change :: "options \<Rightarrow> string \<Rightarrow> candidate list \<Rightarrow> state \<Rightarrow> state" where
  "input_change opts v tags s =
     (if shouldLoadSuggestions opts v then load v tags s else reset s)"

definition input_focus :: "options \<Rightarrow> string \<Rightarrow> candidate list \<Rightarrow> state \<Rightarrow> state" where
  "input_focus opts v tags s =
     (if loadOnFocus opts \<and> shouldLoadSuggestions opts v then load v tags s else s)"

text \<open>What the keydown handler did to the event, and what it returned
  (\<open>None\<close> is \<^verbatim>\<open>undefined\<close>).\<close>

record keydown_result =
  preventDefault :: bool
  stopImmediatePropagation :: bool
  returned :: "bool option"

definition untouched :: keydown_result where
  "untouched = \<lparr> preventDefault = False, stopImmediatePropagation = False, returned = None \<rparr>"

definition suppressed :: keydown_result where
  "suppressed = \<lparr> preventDefault = True, stopImmediatePropagation = True, returned = Some False \<rparr>"

text \<open>\<open>text\<close> and \<open>tags\<close> are what \<^verbatim>\<open>getCurrentTagText()\<close> and \<^verbatim>\<open>getTags()\<close> of the host
  return when the key goes down.\<close>

definition input_keydown ::
  "options \<Rightarrow> key \<Rightarrow> string \<Rightarrow> candidate list \<Rightarrow> state \<Rightarrow> state \<times> keydown_result" where
  "input_keydown opts k text tags s =
     (if k \<notin> set hotkeys then (s, untouched)
      else
        let (s', handled) =
          (if visible s then
             (if k = KDown then (selectNext s, True)
              else if k = KUp then (selectPrior s, True)
              else if k = KEscape then (reset s, True)
              else if k = KEnter \<or> k = KTab then addSuggestion s
              else (s, False))
           else
             (if k = KDown \<and> loadOnDownArrow opts then (load text tags s, True)
              else (s, False)))
        in if handled then (s', suppressed) else (s', untouched))"

subsection \<open>The component as a transition system\<close>

text \<open>Everything that can happen to the component. \<open>TagLifecycle\<close> is any of
  tag-added, tag-removed, invalid-tag and input-blur (lines 238-240); the events of the
  host carry what \<^verbatim>\<open>getTags()\<close> and \<^verbatim>\<open>getCurrentTagText()\<close> return at that moment.
  \<open>ClickSuggestion\<close> is \<^verbatim>\<open>scope.addSuggestionByIndex\<close> and \<open>CallSelect\<close> a call of
  \<^verbatim>\<open>suggestionList.select\<close> from the list's template. A timer or promise that is not
  pending (never started, cancelled, or settled before) does nothing.\<close>

datatype event =
    TagLifecycle
  | InputChange string "candidate list"
  | InputFocus string "candidate list"
  | InputKeydown key string "candidate list"
  | ClickSuggestion int
  | CallSelect int
  | TimerFires nat
  | PromiseResolves nat response
  | PromiseRejects nat

definition settle :: "nat \<Rightarrow> state \<Rightarrow> state" where
  "settle p s = s\<lparr>promises := filter (\<lambda>e. fst e \<noteq> p) (promises s)\<rparr>"

definition timer_fires :: "nat \<Rightarrow> state \<Rightarrow> state" where
  "timer_fires t s =
     (case map_of (timers s) t of
        None \<Rightarrow> s
      | Some job \<Rightarrow>
          let s1 = s\<lparr>timers := filter (\<lambda>e. fst e \<noteq> t) (timers s)\<rparr>
          in (case job of
                DebouncedLoad q tags \<Rightarrow> load_fired q tags s1
              | ScrollReset \<Rightarrow> s1))"

definition promise_resolves :: "options \<Rightarrow> nat \<Rightarrow> response \<Rightarrow> state \<Rightarrow> state" where
  "promise_resolves opts p resp s =
     (case map_of (promises s) p of
        None \<Rightarrow> s
      | Some tags \<Rightarrow> load_resolved opts p tags resp (settle p s))"

text \<open>A rejection runs no callback: \<^verbatim>\<open>then\<close> is given no error handler (line 110).\<close>

definition promise_rejects :: "nat \<Rightarrow> state \<Rightarrow> state" where
  "promise_rejects p s =
     (case map_of (promises s) p of
        None \<Rightarrow> s
      | Some tags \<Rightarrow> settle p s)"

fun step :: "options \<Rightarrow> state \<Rightarrow> event \<Rightarrow> state" where
  "step opts s TagLifecycle = reset s"
| "step opts s (InputChange v tags) = input_change opts v tags s"
| "step opts s (InputFocus v tags) = input_focus opts v tags s"
| "step opts s (InputKeydown k text tags) = fst (input_keydown opts k text tags s)"
| "step opts s (ClickSuggestion i) = addSuggestionByIndex i s"
| "step opts s (CallSelect i) = select i s"
| "step opts s (TimerFires t) = timer_fires t s"
| "step opts s (PromiseResolves p resp) = promise_resolves opts p resp s"
| "step opts s (PromiseRejects p) = promise_rejects p s"

definition run :: "options \<Rightarrow> event list \<Rightarrow> state" where
  "run opts evs = foldl (step opts) SuggestionList evs"

subsection \<open>Predicates of the statements\<close>

text \<open>The closed state of the SuggestionList fields.\<close>

definition closed :: "state \<Rightarrow> bool" where
  "closed s \<longleftrightarrow>
     items s = [] \<and> \<not> visible s \<and> index s = - 1 \<and> selected s = JSNull \<and> query s = JSNull"

text \<open>The pending timers that would issue a fetch.\<close>

definition debounce_pending :: "state \<Rightarrow> (nat \<times> timer_job) list" where
  "debounce_pending s = filter (\<lambda>e. snd e \<noteq> ScrollReset) (timers s)"

text \<open>The candidates of a response after normalization and difference with the tags
  (lines 115-116), and after truncation (lines 118-122).\<close>

definition post_difference :: "options \<Rightarrow> candidate list \<Rightarrow> response \<Rightarrow> candidate list" where
  "post_difference opts tags resp =
     getDifference opts (makeObjectArray (data_or_items resp) (displayProperty opts)) tags"

definition post_truncation :: "options \<Rightarrow> candidate list \<Rightarrow> response \<Rightarrow> candidate list" where
  "post_truncation opts tags resp =
     (if maxResultsToShow opts = - 1 then post_difference opts tags resp
      else slice (post_difference opts tags resp) 0 (maxResultsToShow opts))"

text \<open>The visibility invariant: the list is visible only when it has candidates.\<close>

definition visible_nonempty :: "state \<Rightarrow> bool" where
  "visible_nonempty s \<longleftrightarrow> (visible s \<longrightarrow> items s \<noteq> [])"

text \<open>The cursor invariant: on a visible list with candidates the cursor is an index
  of the list or the sentinel \<open>- 1\<close>.\<close>

definition cursor_valid :: "state \<Rightarrow> bool" where
  "cursor_valid s \<longleftrightarrow>
     (items s \<noteq> [] \<and> visible s \<longrightarrow>
        (0 \<le> index s \<and> index s < int (length (items s))) \<or> index s = - 1)"

text \<open>The load token, when set, is the promise of the fetch issued last.\<close>

definition token_current :: "state \<Rightarrow> bool" where
  "token_current s \<longleftrightarrow> (\<forall>p. lastPromise s = Some p \<longrightarrow> Suc p = next_promise s)"

text \<open>Every pending debounced fetch is the one \<^verbatim>\<open>debouncedLoadId\<close> names.\<close>

definition one_debounce :: "state \<Rightarrow> bool" where
  "one_debounce s \<longleftrightarrow>
     (\<forall>e \<in> set (timers s). snd e \<noteq> ScrollReset \<longrightarrow> debouncedLoadId s = Some (fst e))"

text \<open>The cursor is an index of the list whenever the list has candidates.\<close>

definition cursor_in_range :: "state \<Rightarrow> bool" where
  "cursor_in_range s \<longleftrightarrow>
     (items s \<noteq> [] \<longrightarrow> 0 \<le> index s \<and> index s < int (length (items s)))"

subsection \<open>Example inputs and runs\<close>

text \<open>Concrete candidates, option sets, event sequences and the states they lead to,
  on which the theorems below are instantiated.\<close>

definition apple :: candidate where "apple = [(''text'', ''apple'')]"

definition banana :: candidate where "banana = [(''text'', ''banana'')]"

definition cherry :: candidate where "cherry = [(''text'', ''cherry'')]"

definition open_list :: "int \<Rightarrow> state" where
  "open_list i =
     SuggestionList\<lparr>items := [apple, banana, cherry], visible := True, index := i,
       selected := array_get [apple, banana, cherry] i\<rparr>"

definition no_auto_select :: options where
  "no_auto_select = default_options\<lparr>selectFirstMatch := False\<rparr>"

definition race :: "event list" where
  "race = [InputChange ''abc'' [], TimerFires 0, InputChange ''abcd'' [], TimerFires 1]"

definition stale_cursor_trace :: "event list" where
  "stale_cursor_trace =
     [InputChange ''abc'' [], TimerFires 0,
      PromiseResolves 0 (ArrayResult [Str ''abc1'', Str ''abc2'', Str ''abc3'']),
      InputKeydown KDown ''abc'' [], InputKeydown KDown ''abc'' [], InputKeydown KDown ''abc'' [],
      InputChange ''abc1'' [], TimerFires 2,
      PromiseResolves 1 (ArrayResult [Str ''abc1''])]"

definition awaiting :: state where
  "awaiting = run default_options [InputChange ''abc'' [], TimerFires 0]"

definition fetching :: state where
  "fetching = run default_options [InputChange ''ban'' [[(''text'', ''banana'')]], TimerFires 0]"

definition shown :: state where
  "shown = run default_options
     [InputChange ''app'' [], TimerFires 0, PromiseResolves 0 (ArrayResult [Str ''apple''])]"

definition shown_unselected :: state where
  "shown_unselected = run no_auto_select
     [InputChange ''app'' [], TimerFires 0, PromiseResolves 0 (ArrayResult [Str ''apple''])]"

definition typing :: state where
  "typing = run default_options
     [InputChange ''app'' [], TimerFires 0, PromiseResolves 0 (ArrayResult [Str ''apple'']),
      InputChange ''appl'' []]"

definition four :: response where
  "four = ArrayResult [Str ''a'', Str ''b'', Str ''c'', Str ''d'']"

section \<open>Lemmas\<close>

subsection \<open>Field lemmas\<close>

lemma timeout_cancel_fields [simp]:
  "items (timeout_cancel h s) = items s"
  "visible (timeout_cancel h s) = visible s"
  "index (timeout_cancel h s) = index s"
  "selected (timeout_cancel h s) = selected s"
  "query (timeout_cancel h s) = query s"
  "lastPromise (timeout_cancel h s) = lastPromise s"
  "debouncedLoadId (timeout_cancel h s) = debouncedLoadId s"
  "promises (timeout_cancel h s) = promises s"
  "next_timer (timeout_cancel h s) = next_timer s"
  "next_promise (timeout_cancel h s) = next_promise s"
  "host_log (timeout_cancel h s) = host_log s"
  by (simp_all add: timeout_cancel_def split: option.split)

lemma timeout_cancel_timers:
  "timers (timeout_cancel h s) = filter (\<lambda>e. Some (fst e) \<noteq> h) (timers s)"
  by (simp add: timeout_cancel_def split: option.split)

lemma reset_fields [simp]:
  "items (reset s) = []"
  "visible (reset s) = False"
  "index (reset s) = - 1"
  "selected (reset s) = JSNull"
  "query (reset s) = JSNull"
  "lastPromise (reset s) = None"
  "debouncedLoadId (reset s) = debouncedLoadId s"
  "promises (reset s) = promises s"
  "next_timer (reset s) = next_timer s"
  "next_promise (reset s) = next_promise s"
  "host_log (reset s) = host_log s"
  by (simp_all add: reset_def)

lemma reset_timers:
  "timers (reset s) = filter (\<lambda>e. Some (fst e) \<noteq> debouncedLoadId s) (timers s)"
  by (simp add: reset_def timeout_cancel_timers)

lemma select_fields [simp]:
  "items (select i s) = items s"
  "visible (select i s) = visible s"
  "query (select i s) = query s"
  "lastPromise (select i s) = lastPromise s"
  "debouncedLoadId (select i s) = debouncedLoadId s"
  "timers (select i s) = timers s"
  "promises (select i s) = promises s"
  "next_timer (select i s) = next_timer s"
  "next_promise (select i s) = next_promise s"
  "host_log (select i s) = host_log s"
  by (simp_all add: select_def Let_def)

lemma select_index:
  "index (select i s) =
     (if i < 0 then int (length (items s)) - 1 else if i \<ge> int (length (items s)) then 0 else i)"
  by (simp add: select_def Let_def)

lemma select_selected:
  "selected (select i s) = array_get (items s) (index (select i s))"
  by (simp add: select_def Let_def)

lemma select_in_range:
  "items s \<noteq> [] \<Longrightarrow> 0 \<le> index (select i s) \<and> index (select i s) < int (length (items s))"
  by (auto simp: select_index)

lemma selectNext_eq: "selectNext s = select (index s + 1) s"
  by (simp add: selectNext_def select_def Let_def)

lemma selectPrior_eq: "selectPrior s = select (index s - 1) s"
  by (simp add: selectPrior_def select_def Let_def)

lemma show_list_fields [simp]:
  "items (show_list opts s) = items s"
  "visible (show_list opts s) = True"
  "query (show_list opts s) = query s"
  "lastPromise (show_list opts s) = lastPromise s"
  "debouncedLoadId (show_list opts s) = debouncedLoadId s"
  "timers (show_list opts s) = timers s @ [(next_timer s, ScrollReset)]"
  "promises (show_list opts s) = promises s"
  "next_timer (show_list opts s) = Suc (next_timer s)"
  "next_promise (show_list opts s) = next_promise s"
  "host_log (show_list opts s) = host_log s"
  by (simp_all add: show_list_def timeout_start_def Let_def)

lemma show_list_index:
  "index (show_list opts s) = (if selectFirstMatch opts then index (select 0 s) else index s)"
  by (simp add: show_list_def timeout_start_def Let_def)

lemma show_list_selected:
  "selected (show_list opts s) = (if selectFirstMatch opts then selected (select 0 s) else JSNull)"
  by (simp add: show_list_def timeout_start_def Let_def)

lemma load_fields [simp]:
  "items (load q tags s) = items s"
  "visible (load q tags s) = visible s"
  "index (load q tags s) = index s"
  "selected (load q tags s) = selected s"
  "query (load q tags s) = query s"
  "lastPromise (load q tags s) = lastPromise s"
  "debouncedLoadId (load q tags s) = Some (next_timer s)"
  "timers (load q tags s) =
     filter (\<lambda>e. Some (fst e) \<noteq> debouncedLoadId s) (timers s) @ [(next_timer s, DebouncedLoad q tags)]"
  "promises (load q tags s) = promises s"
  "next_timer (load q tags s) = Suc (next_timer s)"
  "next_promise (load q tags s) = next_promise s"
  "host_log (load q tags s) = host_log s"
  by (simp_all add: load_def timeout_start_def Let_def timeout_cancel_timers)

lemma load_fired_fields [simp]:
  "items (load_fired q tags s) = items s"
  "visible (load_fired q tags s) = visible s"
  "index (load_fired q tags s) = index s"
  "selected (load_fired q tags s) = selected s"
  "query (load_fired q tags s) = JSVal q"
  "lastPromise (load_fired q tags s) = Some (next_promise s)"
  "debouncedLoadId (load_fired q tags s) = debouncedLoadId s"
  "timers (load_fired q tags s) = timers s"
  "promises (load_fired q tags s) = promises s @ [(next_promise s, tags)]"
  "next_timer (load_fired q tags s) = next_timer s"
  "next_promise (load_fired q tags s) = Suc (next_promise s)"
  "host_log (load_fired q tags s) = host_log s"
  by (simp_all add: load_fired_def Let_def)

lemma settle_fields [simp]:
  "items (settle p s) = items s"
  "visible (settle p s) = visible s"
  "index (settle p s) = index s"
  "selected (settle p s) = selected s"
  "query (settle p s) = query s"
  "lastPromise (settle p s) = lastPromise s"
  "debouncedLoadId (settle p s) = debouncedLoadId s"
  "timers (settle p s) = timers s"
  "promises (settle p s) = filter (\<lambda>e. fst e \<noteq> p) (promises s)"
  "next_timer (settle p s) = next_timer s"
  "next_promise (settle p s) = next_promise s"
  "host_log (settle p s) = host_log s"
  by (simp_all add: settle_def)

lemma slice_take: "0 \<le> n \<Longrightarrow> slice xs 0 n = take (nat n) xs"
  by (auto simp: slice_def Let_def min_def)

lemma truthy_find:
  "truthy (findInObjectArray tags item key) \<longleftrightarrow> (\<exists>t \<in> set tags. getProp t key = getProp item key)"
  by (induction tags) auto

lemma load_resolved_eq:
  "load_resolved opts p tags resp s =
     (if Some p \<noteq> lastPromise s then s
      else if post_truncation opts tags resp \<noteq> []
        then show_list opts (s\<lparr>items := post_truncation opts tags resp\<rparr>)
        else reset (s\<lparr>items := post_truncation opts tags resp\<rparr>))"
  by (simp add: load_resolved_def post_truncation_def post_difference_def Let_def)

lemma load_resolved_items:
  "lastPromise s = Some p \<Longrightarrow>
     items (load_resolved opts p tags resp s) = post_truncation opts tags resp"
  by (simp add: load_resolved_def post_truncation_def post_difference_def Let_def)

lemma load_resolved_shown:
  assumes "lastPromise s = Some p" and "post_truncation opts tags resp \<noteq> []"
  shows "load_resolved opts p tags resp s
           = show_list opts (s\<lparr>items := post_truncation opts tags resp\<rparr>)"
  using assms by (simp add: load_resolved_eq)

lemma load_resolved_reset:
  assumes "lastPromise s = Some p" and "post_truncation opts tags resp = []"
  shows "load_resolved opts p tags resp s
           = reset (s\<lparr>items := post_truncation opts tags resp\<rparr>)"
  using assms by (simp add: load_resolved_eq)

lemma promise_resolves_applied:
  "map_of (promises s) p = Some tags \<Longrightarrow>
     promise_resolves opts p resp s = load_resolved opts p tags resp (settle p s)"
  by (simp add: promise_resolves_def)

lemma addSuggestion_selected:
  "selected s = JSVal c \<Longrightarrow>
     addSuggestion s =
       ((reset (s\<lparr>host_log := host_log s @ [AddTag c]\<rparr>))\<lparr>host_log := host_log s @ [AddTag c, FocusInput]\<rparr>,
        True)"
  by (simp add: addSuggestion_def Let_def)

lemma addSuggestion_nothing: "\<not> truthy (selected s) \<Longrightarrow> addSuggestion s = (s, False)"
  by (cases "selected s") (simp_all add: addSuggestion_def)

lemma addSuggestion_fields:
  "lastPromise (fst (addSuggestion s)) = (if truthy (selected s) then None else lastPromise s)"
  "next_promise (fst (addSuggestion s)) = next_promise s"
  "debouncedLoadId (fst (addSuggestion s)) = debouncedLoadId s"
  "visible (fst (addSuggestion s)) = (if truthy (selected s) then False else visible s)"
  "items (fst (addSuggestion s)) = (if truthy (selected s) then [] else items s)"
  "timers (fst (addSuggestion s)) =
     (if truthy (selected s) then filter (\<lambda>e. Some (fst e) \<noteq> debouncedLoadId s) (timers s)
      else timers s)"
  by (cases "selected s"; simp add: addSuggestion_def Let_def reset_timers)+

lemma timer_fires_fields [simp]:
  "items (timer_fires t s) = items s"
  "visible (timer_fires t s) = visible s"
  "index (timer_fires t s) = index s"
  "selected (timer_fires t s) = selected s"
  "debouncedLoadId (timer_fires t s) = debouncedLoadId s"
  "host_log (timer_fires t s) = host_log s"
  "next_timer (timer_fires t s) = next_timer s"
  by (simp_all add: timer_fires_def Let_def split: option.split timer_job.split)

lemma timer_fires_timers:
  "set (timers (timer_fires t s)) \<subseteq> set (timers s)"
  by (auto simp: timer_fires_def Let_def split: option.split timer_job.split)

lemma promise_rejects_eq: "promise_rejects p s = settle p s"
proof (cases "map_of (promises s) p")
  case None
  then have "p \<notin> fst ` set (promises s)"
    by (simp add: map_of_eq_None_iff)
  then have "filter (\<lambda>e. fst e \<noteq> p) (promises s) = promises s"
    by (auto simp: filter_id_conv)
  then show ?thesis
    using None by (simp add: promise_rejects_def settle_def)
next
  case (Some tags)
  then show ?thesis by (simp add: promise_rejects_def)
qed

lemma promise_resolves_stale:
  assumes "lastPromise s \<noteq> Some p"
  shows "promise_resolves opts p resp s = settle p s"
proof (cases "map_of (promises s) p")
  case None
  then show ?thesis
    using promise_rejects_eq [of p s] by (simp add: promise_resolves_def promise_rejects_def)
next
  case (Some tags)
  then show ?thesis
    using assms by (auto simp: promise_resolves_def load_resolved_def)
qed

lemma load_resolved_token:
  "lastPromise (load_resolved opts p tags resp s) = None \<or>
   lastPromise (load_resolved opts p tags resp s) = lastPromise s"
  by (simp add: load_resolved_def Let_def)

lemma load_resolved_counters [simp]:
  "next_promise (load_resolved opts p tags resp s) = next_promise s"
  "debouncedLoadId (load_resolved opts p tags resp s) = debouncedLoadId s"
  by (simp_all add: load_resolved_def Let_def)

lemma promise_resolves_token:
  "lastPromise (promise_resolves opts p resp s) = None \<or>
   lastPromise (promise_resolves opts p resp s) = lastPromise s"
  using load_resolved_token [of opts p _ resp "settle p s"]
  by (simp add: promise_resolves_def split: option.split)

lemma promise_resolves_counters [simp]:
  "next_promise (promise_resolves opts p resp s) = next_promise s"
  "debouncedLoadId (promise_resolves opts p resp s) = debouncedLoadId s"
  by (simp_all add: promise_resolves_def split: option.split)

lemma input_keydown_cases:
  "fst (input_keydown opts k text tags s) \<in>
     {s, selectNext s, selectPrior s, reset s, fst (addSuggestion s), load text tags s}"
  by (auto simp: input_keydown_def Let_def split: prod.split)

text \<open>Running \<open>reset\<close> twice is running it once.\<close>

lemma reset_idem: "reset (reset s) = reset s"
  by (simp add: reset_def timeout_cancel_def Let_def split: option.split)

subsection \<open>Evaluation of the example runs\<close>

lemmas eval_defs =
  run_def SuggestionList_def blank_def default_options_def input_change_def input_focus_def
  shouldLoadSuggestions_def timer_fires_def promise_resolves_def promise_rejects_def
  load_resolved_def load_def load_fired_def reset_def show_list_def select_def selectNext_def
  selectPrior_def timeout_cancel_def timeout_start_def settle_def getDifference_def
  makeObjectArray_def slice_def array_get_def input_keydown_def hotkeys_def addSuggestion_def
  addSuggestionByIndex_def getProp_def Let_def suppressed_def untouched_def

lemma race_state:
  "run default_options race =
     \<lparr> items = [], visible = False, index = - 1, selected = JSNull, query = JSVal ''abcd'',
       lastPromise = Some 1, debouncedLoadId = Some 1, timers = [],
       promises = [(0, []), (1, [])], next_timer = 2, next_promise = 2, host_log = [] \<rparr>"
  by (simp add: race_def eval_defs)

lemma awaiting_state:
  "awaiting =
     \<lparr> items = [], visible = False, index = - 1, selected = JSNull, query = JSVal ''abc'',
       lastPromise = Some 0, debouncedLoadId = Some 0, timers = [],
       promises = [(0, [])], next_timer = 1, next_promise = 1, host_log = [] \<rparr>"
  by (simp add: awaiting_def eval_defs)

lemma fetching_state:
  "fetching =
     \<lparr> items = [], visible = False, index = - 1, selected = JSNull, query = JSVal ''ban'',
       lastPromise = Some 0, debouncedLoadId = Some 0, timers = [],
       promises = [(0, [[(''text'', ''banana'')]])], next_timer = 1, next_promise = 1,
       host_log = [] \<rparr>"
  by (simp add: fetching_def eval_defs)

lemma shown_state:
  "shown =
     \<lparr> items = [[(''text'', ''apple'')]], visible = True, index = 0,
       selected = JSVal [(''text'', ''apple'')], query = JSVal ''app'',
       lastPromise = Some 0, debouncedLoadId = Some 0,
       timers = [(1, ScrollReset)],
       promises = [], next_timer = 2, next_promise = 1, host_log = [] \<rparr>"
  by (simp add: shown_def eval_defs)

lemma shown_unselected_state:
  "shown_unselected =
     \<lparr> items = [[(''text'', ''apple'')]], visible = True, index = - 1,
       selected = JSNull, query = JSVal ''app'',
       lastPromise = Some 0, debouncedLoadId = Some 0,
       timers = [(1, ScrollReset)],
       promises = [], next_timer = 2, next_promise = 1, host_log = [] \<rparr>"
  by (simp add: shown_unselected_def no_auto_select_def eval_defs)

lemma typing_state:
  "typing =
     \<lparr> items = [[(''text'', ''apple'')]], visible = True, index = 0,
       selected = JSVal [(''text'', ''apple'')], query = JSVal ''app'',
       lastPromise = Some 0, debouncedLoadId = Some 2,
       timers = [(1, ScrollReset), (2, DebouncedLoad ''appl'' [])],
       promises = [], next_timer = 3, next_promise = 1, host_log = [] \<rparr>"
  by (simp add: typing_def eval_defs)

lemma stale_cursor_state:
  "run no_auto_select stale_cursor_trace =
     \<lparr> items = [[(''text'', ''abc1'')]], visible = True, index = 2, selected = JSNull,
       query = JSVal ''abc1'', lastPromise = Some 1, debouncedLoadId = Some 2,
       timers = [(1, ScrollReset), (3, ScrollReset)],
       promises = [], next_timer = 4, next_promise = 2, host_log = [] \<rparr>"
  by (simp add: stale_cursor_trace_def no_auto_select_def eval_defs)

subsection \<open>Invariants of the transition system\<close>

lemma token_current_ops:
  assumes "token_current s"
  shows "token_current (reset s)"
    and "token_current (select i s)"
    and "token_current (selectNext s)"
    and "token_current (selectPrior s)"
    and "token_current (load q tags s)"
    and "token_current (fst (addSuggestion s))"
    and "token_current (settle p s)"
    and "token_current (timer_fires t s)"
    and "token_current (promise_resolves opts p resp s)"
proof -
  show "token_current (timer_fires t s)"
    using assms
    by (auto simp: token_current_def timer_fires_def Let_def split: option.split timer_job.split)
  show "token_current (promise_resolves opts p resp s)"
    using assms promise_resolves_token [of opts p resp s] by (auto simp: token_current_def)
qed (use assms in \<open>auto simp: token_current_def selectNext_eq selectPrior_eq addSuggestion_fields
       split: if_splits\<close>)

lemma token_current_step: "token_current s \<Longrightarrow> token_current (step opts s e)"
proof (cases e)
  case (InputKeydown k v tags)
  assume "token_current s"
  then show ?thesis
    using input_keydown_cases [of opts k v tags s] InputKeydown
    by (auto simp: token_current_ops)
qed (auto simp: token_current_ops input_change_def input_focus_def addSuggestionByIndex_def
       promise_rejects_eq)

lemma token_current_run: "token_current (run opts evs)"
proof (induction evs rule: rev_induct)
  case Nil
  show ?case by (simp add: run_def token_current_def SuggestionList_def)
next
  case (snoc e evs)
  then show ?case by (simp add: run_def token_current_step)
qed

lemma one_debounce_ops:
  assumes "one_debounce s"
  shows "one_debounce (reset s)"
    and "one_debounce (select i s)"
    and "one_debounce (selectNext s)"
    and "one_debounce (selectPrior s)"
    and "one_debounce (load q tags s)"
    and "one_debounce (fst (addSuggestion s))"
    and "one_debounce (settle p s)"
    and "one_debounce (timer_fires t s)"
    and "one_debounce (show_list opts s)"
proof -
  show "one_debounce (timer_fires t s)"
    using assms timer_fires_timers [of t s] by (auto simp: one_debounce_def)
qed (use assms in \<open>auto simp: one_debounce_def selectNext_eq selectPrior_eq addSuggestion_fields
       reset_timers split: if_splits\<close>)

lemma one_debounce_load_resolved:
  assumes "one_debounce s"
  shows "one_debounce (load_resolved opts p tags resp s)"
proof -
  have "one_debounce (s\<lparr>items := xs\<rparr>)" for xs
    using assms by (simp add: one_debounce_def)
  then show ?thesis
    by (simp add: load_resolved_def Let_def one_debounce_ops assms)
qed

lemma one_debounce_step: "one_debounce s \<Longrightarrow> one_debounce (step opts s e)"
proof (cases e)
  case (InputKeydown k v tags)
  assume "one_debounce s"
  then show ?thesis
    using input_keydown_cases [of opts k v tags s] InputKeydown
    by (auto simp: one_debounce_ops)
next
  case (PromiseResolves p resp)
  assume "one_debounce s"
  then show ?thesis
    using PromiseResolves
    by (simp add: promise_resolves_def one_debounce_ops one_debounce_load_resolved
          split: option.split)
qed (auto simp: one_debounce_ops input_change_def input_focus_def addSuggestionByIndex_def
       promise_rejects_eq)

lemma one_debounce_run: "one_debounce (run opts evs)"
proof (induction evs rule: rev_induct)
  case Nil
  show ?case by (simp add: run_def one_debounce_def SuggestionList_def reset_timers blank_def)
next
  case (snoc e evs)
  then show ?case by (simp add: run_def one_debounce_step)
qed

lemma reset_cancels_debounce: "one_debounce s \<Longrightarrow> debounce_pending (reset s) = []"
  by (auto simp: debounce_pending_def one_debounce_def reset_timers filter_empty_conv)

lemma timer_fires_after_reset:
  assumes "one_debounce s"
  shows "timer_fires t (reset s) = (reset s)\<lparr>timers := filter (\<lambda>e. fst e \<noteq> t) (timers (reset s))\<rparr>"
proof (cases "map_of (timers (reset s)) t")
  case None
  then have "t \<notin> fst ` set (timers (reset s))"
    by (simp add: map_of_eq_None_iff)
  then have "filter (\<lambda>e. fst e \<noteq> t) (timers (reset s)) = timers (reset s)"
    by (auto simp: filter_id_conv)
  then show ?thesis
    using None by (simp add: timer_fires_def)
next
  case (Some job)
  then have "(t, job) \<in> set (timers (reset s))"
    by (rule map_of_SomeD)
  then have "(t, job) \<in> set (debounce_pending (reset s)) \<or> job = ScrollReset"
    by (auto simp: debounce_pending_def)
  then have "job = ScrollReset"
    using reset_cancels_debounce [OF assms] by simp
  then show ?thesis
    using Some by (simp add: timer_fires_def)
qed

lemma visible_nonempty_ops:
  assumes "visible_nonempty s"
  shows "visible_nonempty (reset s)"
    and "visible_nonempty (select i s)"
    and "visible_nonempty (selectNext s)"
    and "visible_nonempty (selectPrior s)"
    and "visible_nonempty (load q tags s)"
    and "visible_nonempty (fst (addSuggestion s))"
    and "visible_nonempty (settle p s)"
    and "visible_nonempty (timer_fires t s)"
  using assms
  by (auto simp: visible_nonempty_def selectNext_eq selectPrior_eq addSuggestion_fields)

lemma visible_nonempty_load_resolved:
  assumes "visible_nonempty s"
  shows "visible_nonempty (load_resolved opts p tags resp s)"
proof (cases "lastPromise s = Some p")
  case True
  then show ?thesis
    by (cases "post_truncation opts tags resp = []")
       (simp_all add: load_resolved_shown load_resolved_reset visible_nonempty_def)
next
  case False
  then show ?thesis
    using assms by (auto simp: load_resolved_def)
qed

lemma visible_nonempty_show_list:
  "items s \<noteq> [] \<Longrightarrow> visible_nonempty (show_list opts s)"
  by (simp add: visible_nonempty_def)

lemma visible_nonempty_step: "visible_nonempty s \<Longrightarrow> visible_nonempty (step opts s e)"
proof (cases e)
  case (InputKeydown k v tags)
  assume "visible_nonempty s"
  then show ?thesis
    using input_keydown_cases [of opts k v tags s] InputKeydown
    by (auto simp: visible_nonempty_ops)
next
  case (PromiseResolves p resp)
  assume "visible_nonempty s"
  then show ?thesis
    using PromiseResolves
    by (simp add: promise_resolves_def visible_nonempty_ops visible_nonempty_load_resolved
          split: option.split)
qed (auto simp: visible_nonempty_ops input_change_def input_focus_def addSuggestionByIndex_def
       promise_rejects_eq)

lemma visible_nonempty_run: "visible_nonempty (run opts evs)"
proof (induction evs rule: rev_induct)
  case Nil
  show ?case by (simp add: run_def visible_nonempty_def SuggestionList_def)
next
  case (snoc e evs)
  then show ?case by (simp add: run_def visible_nonempty_step)
qed

lemma cursor_in_range_ops:
  shows "cursor_in_range (reset s)"
    and "cursor_in_range (select i s)"
    and "cursor_in_range (selectNext s)"
    and "cursor_in_range (selectPrior s)"
    and "cursor_in_range s \<Longrightarrow> cursor_in_range (load q tags s)"
    and "cursor_in_range s \<Longrightarrow> cursor_in_range (fst (addSuggestion s))"
    and "cursor_in_range s \<Longrightarrow> cursor_in_range (settle p s)"
    and "cursor_in_range s \<Longrightarrow> cursor_in_range (timer_fires t s)"
    and "selectFirstMatch opts \<Longrightarrow> cursor_in_range (show_list opts s)"
  using select_in_range
  by (auto simp: cursor_in_range_def selectNext_eq selectPrior_eq addSuggestion_fields
        addSuggestion_nothing show_list_index)

lemma cursor_in_range_load_resolved:
  assumes "selectFirstMatch opts" and "cursor_in_range s"
  shows "cursor_in_range (load_resolved opts p tags resp s)"
  using assms by (simp add: load_resolved_eq cursor_in_range_ops)

lemma cursor_in_range_step:
  assumes "selectFirstMatch opts" and "cursor_in_range s"
  shows "cursor_in_range (step opts s e)"
proof (cases e)
  case (InputKeydown k v tags)
  then show ?thesis
    using input_keydown_cases [of opts k v tags s] assms(2)
    by (auto simp: cursor_in_range_ops)
next
  case (PromiseResolves p resp)
  then show ?thesis
    using assms
    by (simp add: promise_resolves_def cursor_in_range_ops cursor_in_range_load_resolved
          split: option.split)
qed (use assms(2) in \<open>auto simp: cursor_in_range_ops input_change_def input_focus_def
       addSuggestionByIndex_def promise_rejects_eq\<close>)

lemma cursor_valid_selectFirstMatch:
  assumes "selectFirstMatch opts"
  shows "cursor_valid (run opts evs)"
proof -
  have "cursor_in_range (run opts evs)"
  proof (induction evs rule: rev_induct)
    case Nil
    show ?case by (simp add: run_def cursor_in_range_def SuggestionList_def)
  next
    case (snoc e evs)
    then show ?case by (simp add: run_def cursor_in_range_step [OF assms])
  qed
  then show ?thesis
    by (simp add: cursor_valid_def cursor_in_range_def)
qed

section \<open>The claims\<close>

text \<open>
  C1. Only the resolution of the fetch issued last may change the SuggestionList. When
  a fetch resolves and its promise is not the load token \<^verbatim>\<open>lastPromise\<close>, nothing is
  mutated: the state is the one before, with the promise taken out of the pending set
  (\<open>settle\<close>). In every state the component can reach, whatever the order of the
  resolutions before, this holds for every promise but the one issued last (the one
  numbered \<open>next_promise - 1\<close>).
\<close>

theorem stale_resolution_discarded:
  "(lastPromise s \<noteq> Some p \<longrightarrow> promise_resolves opts p resp s = settle p s) \<and>
   (Suc p \<noteq> next_promise (run opts evs) \<longrightarrow>
      promise_resolves opts p resp (run opts evs) = settle p (run opts evs))"
proof -
  have "lastPromise (run opts evs) \<noteq> Some p" if "Suc p \<noteq> next_promise (run opts evs)"
    using that token_current_run [of opts evs] by (auto simp: token_current_def)
  then show ?thesis
    by (simp add: promise_resolves_stale)
qed

theorem stale_resolution_discarded_witness:
  "lastPromise (run default_options race) \<noteq> Some 0 \<and>
   Suc 0 \<noteq> next_promise (run default_options race) \<and>
   map_of (promises (run default_options race)) 0 = Some [] \<and>
   promise_resolves default_options 0 (ArrayResult [Str ''stale'']) (run default_options race)
     = settle 0 (run default_options race) \<and>
   items (promise_resolves default_options 0 (ArrayResult [Str ''stale'']) (run default_options race)) = [] \<and>
   \<not> visible (promise_resolves default_options 0 (ArrayResult [Str ''stale'']) (run default_options race)) \<and>
   items (promise_resolves default_options 1 (ArrayResult [Str ''fresh'']) (run default_options race))
     = [[(''text'', ''fresh'')]]"
  using stale_resolution_discarded [of "run default_options race" 0 default_options
      "ArrayResult [Str ''stale'']" race]
  by (simp add: race_state) (simp add: eval_defs)

text \<open>
  C2. For every sequence of candidates and every sequence of tags, getDifference
  returns exactly the candidates whose display-field value equals the display-field
  value of no tag, in the order in which they stand in the candidate sequence.
\<close>

theorem getDifference_exact:
  "getDifference opts candidates tags =
     filter (\<lambda>c. \<forall>t \<in> set tags. getProp t (displayProperty opts) \<noteq> getProp c (displayProperty opts))
       candidates"
  by (simp add: getDifference_def truthy_find)

theorem getDifference_exact_witness:
  "getDifference default_options
     [[(''text'', ''apple'')], [(''text'', ''banana'')], [(''text'', ''cherry'')]]
     [[(''text'', ''banana'')]]
   = [[(''text'', ''apple'')], [(''text'', ''cherry'')]]"
  using getDifference_exact [of default_options
      "[[(''text'', ''apple'')], [(''text'', ''banana'')], [(''text'', ''cherry'')]]"
      "[[(''text'', ''banana'')]]"]
  by (simp add: default_options_def getProp_def)

text \<open>
  C3, as the code has it. A rejection runs no callback: it mutates no field and takes
  the promise out of the pending set. Over the load cycle (the call of load, the firing
  of its timer, the rejection of its fetch) items, visible, index and selected are not
  mutated, and query is set to the query of the load when the fetch is issued
  (line 105).
\<close>

theorem rejected_load_effect:
  "promise_rejects p s = settle p s \<and>
   (let s' = promise_rejects (next_promise s) (load_fired q tags (load q tags s))
    in items s' = items s \<and> visible s' = visible s \<and> index s' = index s \<and>
       selected s' = selected s \<and> query s' = JSVal q)"
  by (simp add: promise_rejects_eq Let_def)

text \<open>
  C3 as stated lists query among the fields that a load cycle with a failing fetch
  leaves alone. On the freshly constructed list, load(''abc'', []) followed by the
  firing of its timer and the rejection of its fetch leaves query = ''abc'', where it
  was null.
\<close>

theorem rejected_load_sets_query:
  "map_of (promises (run default_options [InputChange ''abc'' [], TimerFires 0])) 0 = Some [] \<and>
   query (run default_options []) = JSNull \<and>
   query (run default_options [InputChange ''abc'' [], TimerFires 0, PromiseRejects 0]) = JSVal ''abc'' \<and>
   query (run default_options [InputChange ''abc'' [], TimerFires 0, PromiseRejects 0])
     \<noteq> query (run default_options [])"
  by (simp add: eval_defs)

text \<open>
  C4. After a load resolution that is applied (the promise is pending and is the load
  token): if maxResultsToShow = N with N \<ge> 0 the stored Suggestion Set is the first N
  post-difference candidates, so its length is at most N; if maxResultsToShow is - 1
  the stored Suggestion Set is the whole post-difference sequence.
\<close>

theorem load_truncation:
  assumes "map_of (promises s) p = Some tags" and "lastPromise s = Some p"
  shows "(0 \<le> maxResultsToShow opts \<longrightarrow>
           items (promise_resolves opts p resp s)
             = take (nat (maxResultsToShow opts)) (post_difference opts tags resp) \<and>
           int (length (items (promise_resolves opts p resp s))) \<le> maxResultsToShow opts) \<and>
         (maxResultsToShow opts = - 1 \<longrightarrow>
           items (promise_resolves opts p resp s) = post_difference opts tags resp)"
proof -
  have "items (promise_resolves opts p resp s) = post_truncation opts tags resp"
    using assms by (simp add: promise_resolves_applied load_resolved_items)
  then show ?thesis
    by (auto simp: post_truncation_def slice_take)
qed

theorem load_truncation_witness:
  "map_of (promises awaiting) 0 = Some [] \<and> lastPromise awaiting = Some 0 \<and>
   items (promise_resolves (default_options\<lparr>maxResultsToShow := 2\<rparr>) 0 four awaiting)
     = [[(''text'', ''a'')], [(''text'', ''b'')]] \<and>
   items (promise_resolves (default_options\<lparr>maxResultsToShow := 0\<rparr>) 0 four awaiting) = [] \<and>
   items (promise_resolves (default_options\<lparr>maxResultsToShow := - 1\<rparr>) 0 four awaiting)
     = [[(''text'', ''a'')], [(''text'', ''b'')], [(''text'', ''c'')], [(''text'', ''d'')]]"
proof -
  have pre: "map_of (promises awaiting) 0 = Some []" "lastPromise awaiting = Some 0"
    by (simp_all add: awaiting_state)
  have pd: "post_difference (default_options\<lparr>maxResultsToShow := n\<rparr>) [] four
      = [[(''text'', ''a'')], [(''text'', ''b'')], [(''text'', ''c'')], [(''text'', ''d'')]]" for n
    by (simp add: post_difference_def four_def default_options_def getDifference_def
          makeObjectArray_def)
  show ?thesis
    using load_truncation [OF pre, of "default_options\<lparr>maxResultsToShow := 2\<rparr>" four]
      load_truncation [OF pre, of "default_options\<lparr>maxResultsToShow := 0\<rparr>" four]
      load_truncation [OF pre, of "default_options\<lparr>maxResultsToShow := - 1\<rparr>" four]
      pre
    by (simp add: pd)
qed

text \<open>
  C5. On a Suggestion Set of length L > 0: selectNext from cursor L - 1 sets the cursor
  to 0, selectPrior from cursor 0 sets it to L - 1, select(i) maps i < 0 to L - 1 and
  i \<ge> L to 0, and in all cases the selection is the candidate at the new cursor. On
  an empty set the three operations do not throw: the read out of range gives
  undefined, which becomes the selection.
\<close>

theorem select_wraparound:
  "(items s \<noteq> [] \<longrightarrow>
      (index s = int (length (items s)) - 1 \<longrightarrow> index (selectNext s) = 0) \<and>
      (index s = 0 \<longrightarrow> index (selectPrior s) = int (length (items s)) - 1) \<and>
      (i < 0 \<longrightarrow> index (select i s) = int (length (items s)) - 1) \<and>
      (i \<ge> int (length (items s)) \<longrightarrow> index (select i s) = 0) \<and>
      selected (select i s) = JSVal (items s ! nat (index (select i s))) \<and>
      selected (selectNext s) = JSVal (items s ! nat (index (selectNext s))) \<and>
      selected (selectPrior s) = JSVal (items s ! nat (index (selectPrior s)))) \<and>
   (items s = [] \<longrightarrow>
      select i s = s\<lparr>index := (if i < 0 then - 1 else 0), selected := JSUndefined\<rparr> \<and>
      selected (selectNext s) = JSUndefined \<and> selected (selectPrior s) = JSUndefined)"
proof -
  have sel: "selected (select j s) = JSVal (items s ! nat (index (select j s)))"
    if "items s \<noteq> []" for j
    using select_in_range [OF that, of j] by (simp add: select_selected array_get_def)
  have emp: "selected (select j s) = JSUndefined" if "items s = []" for j
    using that by (simp add: select_selected select_index array_get_def)
  have "select i s = s\<lparr>index := (if i < 0 then - 1 else 0), selected := JSUndefined\<rparr>"
    if "items s = []"
    using that by (simp add: select_def Let_def array_get_def)
  then show ?thesis
    using sel emp by (simp add: selectNext_eq selectPrior_eq select_index)
qed

theorem select_wraparound_witness:
  "index (selectNext (open_list 2)) = 0 \<and>
   selected (selectNext (open_list 2)) = JSVal apple \<and>
   index (selectPrior (open_list 0)) = 2 \<and>
   selected (selectPrior (open_list 0)) = JSVal cherry \<and>
   index (select (- 5) (open_list 0)) = 2 \<and>
   index (select 7 (open_list 2)) = 0 \<and>
   index (select 1 (open_list 2)) = 1 \<and>
   selected (select 1 (open_list 2)) = JSVal banana \<and>
   index (select 4 SuggestionList) = 0 \<and>
   selected (select 4 SuggestionList) = JSUndefined \<and>
   selected (selectNext SuggestionList) = JSUndefined \<and>
   selected (selectPrior SuggestionList) = JSUndefined"
  using select_wraparound [of "open_list 2" 7] select_wraparound [of "open_list 0" "- 5"]
    select_wraparound [of "open_list 2" 1] select_wraparound [of SuggestionList 4]
  by (simp add: open_list_def SuggestionList_def select_index)

text \<open>
  C6. The cursor invariant is broken by \<^verbatim>\<open>show\<close> when selectFirstMatch is disabled: its
  else-branch (line 87) clears \<^verbatim>\<open>selected\<close> and leaves \<^verbatim>\<open>index\<close> as it was, where
  \<^verbatim>\<open>reset\<close> sets both. In the run below the user moves the cursor to the third of three
  suggestions and types on; the next fetch resolves to one suggestion. The list is then
  visible with one candidate, nothing selected, and the cursor at 2: neither an index
  of the list nor the sentinel - 1.
\<close>

theorem stale_cursor_after_reload:
  "items (run no_auto_select stale_cursor_trace) = [[(''text'', ''abc1'')]] \<and>
   visible (run no_auto_select stale_cursor_trace) \<and>
   selected (run no_auto_select stale_cursor_trace) = JSNull \<and>
   index (run no_auto_select stale_cursor_trace) = 2 \<and>
   \<not> index (run no_auto_select stale_cursor_trace)
       < int (length (items (run no_auto_select stale_cursor_trace))) \<and>
   index (run no_auto_select stale_cursor_trace) \<noteq> - 1"
  by (simp add: stale_cursor_state)

text \<open>
  C7. The list is visible only when the Suggestion Set is non-empty. This holds in
  every state the component reaches, and it is preserved by every event handler and by
  reset, select, selectNext, selectPrior, load and the load resolution from any state
  that has it; \<^verbatim>\<open>show\<close>, which the source calls only under
  \<^verbatim>\<open>self.items.length > 0\<close> (lines 124-125), establishes it on a non-empty set. In
  particular an applied load resolution whose set after difference and truncation is
  non-empty is \<^verbatim>\<open>show\<close> on that set (visible, with that set stored), and one whose set
  is empty is \<^verbatim>\<open>reset\<close> (the closed state).
\<close>

theorem visibility_invariant:
  "visible_nonempty (run opts evs) \<and>
   (visible_nonempty s \<longrightarrow>
      visible_nonempty (step opts s e) \<and>
      visible_nonempty (reset s) \<and> visible_nonempty (select i s) \<and>
      visible_nonempty (selectNext s) \<and> visible_nonempty (selectPrior s) \<and>
      visible_nonempty (load q tags s) \<and>
      visible_nonempty (load_resolved opts p tags resp s)) \<and>
   (items s \<noteq> [] \<longrightarrow> visible_nonempty (show_list opts s)) \<and>
   (map_of (promises s) p = Some tags \<and> lastPromise s = Some p \<longrightarrow>
      (post_truncation opts tags resp \<noteq> [] \<longrightarrow>
         promise_resolves opts p resp s
           = show_list opts ((settle p s)\<lparr>items := post_truncation opts tags resp\<rparr>) \<and>
         visible (promise_resolves opts p resp s) \<and>
         items (promise_resolves opts p resp s) = post_truncation opts tags resp) \<and>
      (post_truncation opts tags resp = [] \<longrightarrow>
         promise_resolves opts p resp s
           = reset ((settle p s)\<lparr>items := post_truncation opts tags resp\<rparr>) \<and>
         closed (promise_resolves opts p resp s)))"
proof -
  have "promise_resolves opts p resp s
          = show_list opts ((settle p s)\<lparr>items := post_truncation opts tags resp\<rparr>)"
    if "map_of (promises s) p = Some tags" "lastPromise s = Some p"
       "post_truncation opts tags resp \<noteq> []"
    using that by (simp add: promise_resolves_applied load_resolved_shown)
  moreover have "promise_resolves opts p resp s
          = reset ((settle p s)\<lparr>items := post_truncation opts tags resp\<rparr>)"
    if "map_of (promises s) p = Some tags" "lastPromise s = Some p"
       "post_truncation opts tags resp = []"
    using that by (simp add: promise_resolves_applied load_resolved_reset)
  ultimately show ?thesis
    by (simp add: visible_nonempty_run visible_nonempty_step visible_nonempty_ops
          visible_nonempty_load_resolved visible_nonempty_show_list closed_def)
qed

theorem visibility_invariant_witness:
  "visible_nonempty fetching \<and>
   visible_nonempty (step default_options fetching (PromiseResolves 0 (ArrayResult [Str ''bandana'']))) \<and>
   visible_nonempty (reset fetching) \<and>
   items shown \<noteq> [] \<and> visible_nonempty (show_list default_options shown) \<and>
   map_of (promises fetching) 0 = Some [[(''text'', ''banana'')]] \<and>
   lastPromise fetching = Some 0 \<and>
   post_truncation default_options [[(''text'', ''banana'')]] (ArrayResult [Str ''bandana'', Str ''banana''])
     = [[(''text'', ''bandana'')]] \<and>
   visible (promise_resolves default_options 0 (ArrayResult [Str ''bandana'', Str ''banana'']) fetching) \<and>
   items (promise_resolves default_options 0 (ArrayResult [Str ''bandana'', Str ''banana'']) fetching)
     = [[(''text'', ''bandana'')]] \<and>
   post_truncation default_options [[(''text'', ''banana'')]] (DataEnvelope [Str ''banana'']) = [] \<and>
   closed (promise_resolves default_options 0 (DataEnvelope [Str ''banana'']) fetching)"
proof -
  have pt1: "post_truncation default_options [[(''text'', ''banana'')]]
        (ArrayResult [Str ''bandana'', Str ''banana'']) = [[(''text'', ''bandana'')]]"
    by (simp add: post_truncation_def post_difference_def eval_defs)
  have pt2: "post_truncation default_options [[(''text'', ''banana'')]]
        (DataEnvelope [Str ''banana'']) = []"
    by (simp add: post_truncation_def post_difference_def eval_defs)
  have pre: "map_of (promises fetching) 0 = Some [[(''text'', ''banana'')]]"
       "lastPromise fetching = Some 0" "visible_nonempty fetching" "items shown \<noteq> []"
    by (simp_all add: fetching_state shown_state visible_nonempty_def)
  show ?thesis
    using visibility_invariant [of default_options "[]" fetching
        "PromiseResolves 0 (ArrayResult [Str ''bandana''])" 0 "[]" "[[(''text'', ''banana'')]]" 0
        "ArrayResult [Str ''bandana'', Str ''banana'']"]
      visibility_invariant [of default_options "[]" fetching
        "PromiseResolves 0 (ArrayResult [Str ''bandana''])" 0 "[]" "[[(''text'', ''banana'')]]" 0
        "DataEnvelope [Str ''banana'']"]
      visibility_invariant [of default_options "[]" shown
        "PromiseResolves 0 (ArrayResult [Str ''bandana''])" 0 "[]" "[]" 0
        "DataEnvelope [Str ''banana'']"]
      pre pt1 pt2
    by (simp add: closed_def)
qed

text \<open>
  C8. After reset the Suggestion Set is empty, the list is hidden, the cursor is - 1,
  selection and query are null, the load token is cleared, and the timer that
  \<^verbatim>\<open>debouncedLoadId\<close> names is no longer pending. In every state the component reaches
  that timer is the only pending debounce timer, so after reset no debounced fetch is
  pending and no timer that fires next issues a fetch. The freshly constructed
  SuggestionList is in this state, with nothing pending.
\<close>

theorem reset_closes:
  "closed (reset s) \<and> lastPromise (reset s) = None \<and>
   (\<forall>e \<in> set (timers (reset s)). Some (fst e) \<noteq> debouncedLoadId s) \<and>
   debounce_pending (reset (run opts evs)) = [] \<and>
   promises (timer_fires t (reset (run opts evs))) = promises (run opts evs) \<and>
   closed SuggestionList \<and> lastPromise SuggestionList = None \<and>
   timers SuggestionList = [] \<and> promises SuggestionList = []"
proof -
  have "promises (timer_fires t (reset (run opts evs))) = promises (run opts evs)"
    by (simp add: timer_fires_after_reset [OF one_debounce_run])
  moreover have "timers SuggestionList = []" "promises SuggestionList = []"
    by (simp_all add: SuggestionList_def reset_timers blank_def)
  ultimately show ?thesis
    by (simp add: closed_def reset_timers reset_cancels_debounce [OF one_debounce_run]
          SuggestionList_def)
qed

theorem reset_closes_witness:
  "debounce_pending typing = [(2, DebouncedLoad ''appl'' [])] \<and>
   debouncedLoadId typing = Some 2 \<and>
   timers (reset typing) = [(1, ScrollReset)] \<and>
   closed (reset typing) \<and>
   promises (timer_fires 2 (reset typing)) = []"
  using reset_closes [of typing default_options
      "[InputChange ''app'' [], TimerFires 0, PromiseResolves 0 (ArrayResult [Str ''apple'']),
        InputChange ''appl'' []]" 2]
  unfolding typing_def [symmetric]
  by (simp add: typing_state debounce_pending_def reset_timers)

text \<open>
  C9. When the list is visible and a candidate is selected, an enter or tab keydown
  calls addTag with the selected candidate on the host, resets the SuggestionList to
  the closed state and then calls focusInput; addSuggestion returns true, and the
  handler calls preventDefault and stopImmediatePropagation on the event and returns
  false.
\<close>

theorem enter_commits_selection:
  assumes "visible s" and "selected s = JSVal c" and "k = KEnter \<or> k = KTab"
  shows "\<exists>s'. addSuggestion s = (s', True) \<and>
           input_keydown opts k text tags s = (s', suppressed) \<and>
           host_log s' = host_log s @ [AddTag c, FocusInput] \<and>
           closed s' \<and> lastPromise s' = None \<and>
           (\<forall>e \<in> set (timers s'). Some (fst e) \<noteq> debouncedLoadId s)"
proof -
  obtain s' where add: "addSuggestion s = (s', True)"
      and s': "s' = (reset (s\<lparr>host_log := host_log s @ [AddTag c]\<rparr>))\<lparr>host_log := host_log s @ [AddTag c, FocusInput]\<rparr>"
    using addSuggestion_selected [OF assms(2)] by simp
  have "input_keydown opts k text tags s = (s', suppressed)"
    using assms(1,3) add by (auto simp: input_keydown_def hotkeys_def)
  moreover have "closed s'" "lastPromise s' = None" "host_log s' = host_log s @ [AddTag c, FocusInput]"
    "\<forall>e \<in> set (timers s'). Some (fst e) \<noteq> debouncedLoadId s"
    by (simp_all add: s' closed_def reset_timers)
  ultimately show ?thesis
    using add by blast
qed

theorem enter_commits_selection_witness:
  "visible shown \<and> selected shown = JSVal [(''text'', ''apple'')] \<and>
   snd (addSuggestion shown) = True \<and>
   snd (input_keydown default_options KEnter ''app'' [] shown) = suppressed \<and>
   snd (input_keydown default_options KTab ''app'' [] shown) = suppressed \<and>
   host_log (fst (input_keydown default_options KEnter ''app'' [] shown))
     = [AddTag [(''text'', ''apple'')], FocusInput] \<and>
   closed (fst (input_keydown default_options KTab ''app'' [] shown))"
  using enter_commits_selection [of shown "[(''text'', ''apple'')]" KEnter default_options "''app''" "[]"]
    enter_commits_selection [of shown "[(''text'', ''apple'')]" KTab default_options "''app''" "[]"]
  by (auto simp: shown_state)

text \<open>
  C10. When the list is visible and nothing is selected (selection null or undefined),
  an enter or tab keydown changes nothing: every field of the state and the calls
  received by the host are as before, addSuggestion returns false, and the handler
  calls neither preventDefault nor stopImmediatePropagation on the event.
\<close>

theorem enter_without_selection_ignored:
  assumes "visible s" and "\<not> truthy (selected s)" and "k = KEnter \<or> k = KTab"
  shows "addSuggestion s = (s, False) \<and> input_keydown opts k text tags s = (s, untouched)"
  using assms by (auto simp: addSuggestion_nothing input_keydown_def hotkeys_def)

theorem enter_without_selection_ignored_witness:
  "visible shown_unselected \<and> \<not> truthy (selected shown_unselected) \<and>
   addSuggestion shown_unselected = (shown_unselected, False) \<and>
   input_keydown no_auto_select KEnter ''app'' [] shown_unselected = (shown_unselected, untouched) \<and>
   input_keydown no_auto_select KTab ''app'' [] shown_unselected = (shown_unselected, untouched)"
  using enter_without_selection_ignored [of shown_unselected KEnter no_auto_select "''app''" "[]"]
    enter_without_selection_ignored [of shown_unselected KTab no_auto_select "''app''" "[]"]
  by (simp add: shown_unselected_state)

end
